theory Spec2Isabelle
  imports Main "HOL-Library.AList"
begin

section \<open>Party Up! LFG bot: the session lifecycle engine of src/index.js\<close>

text \<open>
  The bot keeps its sessions in process-wide JavaScript \<open>Map\<close>s and mirrors part of them
  into a Postgres database through the class \<open>DatabaseStorage\<close>. A JavaScript \<open>Map\<close>
  keeps its keys in insertion order and \<open>set\<close> on an existing key keeps the key's place,
  which is what \<open>AList.update\<close> does on an association list; \<open>Map.get\<close> is \<open>map_of\<close>,
  \<open>Map.delete\<close> is \<open>AList.delete\<close>.

  Everything the handlers cannot decide themselves (the clock, a database query that
  throws, a Discord call that rejects) is a field of the record \<open>env\<close>, fixed for one
  run of a handler: \<open>dbFails\<close> says for each storage method whether its query throws
  during that run. User, session and channel ids are strings, timestamps are
  milliseconds as \<open>int\<close>. A handler runs from its first line to its last without
  another handler in between (the interleaving of \<open>await\<close> points is not modelled).

  Left out of the model: the rendering of embeds and buttons, and the announcement
  reference \<open>messageId\<close> with the database writes that carry only that field.
\<close>

subsection \<open>Data model\<close>

datatype status = Waiting | Confirming | Active

datatype error = DatabaseError | ReferenceError | DiscordError

datatype db_op =
    QCreateSession | QGetSession | QUpdateSession | QDeleteSession
  | QGetAllActiveSessions | QGetGuildSettings | QSetGuildSettings
  | QCleanupExpiredSessions | QCreateUserSession | QGetUserSession
  | QDeleteUserSession

text \<open>A row of the table \<open>lfg_sessions\<close> (the columns the handlers read or write).\<close>

record db_session =
  ds_id :: string
  ds_creatorId :: string
  ds_playersNeeded :: int
  ds_status :: status
  ds_currentPlayers :: "string list"
  ds_confirmedPlayers :: "string list"
  ds_voiceChannelId :: "string option"
  ds_confirmationStartTime :: "int option"
  ds_createdAt :: int
  ds_expiresAt :: int
  ds_isActive :: bool

text \<open>The partial object given to \<open>storage.updateSession\<close>: a field that is \<open>None\<close> is absent.\<close>

record session_updates =
  u_currentPlayers :: "string list option"
  u_status :: "status option"
  u_confirmationStartTime :: "int option option"
  u_voiceChannelId :: "string option option"

record database =
  lfgSessions :: "db_session list"
  guildSettings :: "(string \<times> string option) list"
  userSessions :: "(string \<times> string) list"

text \<open>The in-memory session object held in \<open>activeSessions\<close>.\<close>

record session =
  s_id :: string
  creator :: string
  playersNeeded :: int
  currentPlayers :: "string list"
  confirmedPlayers :: "string list"
  voiceChannel :: "string option"
  createdAt :: int
  confirmationStartTime :: "int option"
  status :: status
  timeoutId :: "nat option"

text \<open>
  A pending \<open>setTimeout\<close>: the callback it will run and the delay it was scheduled with.
  \<open>RecruitmentTimer\<close> is the callback of \<open>handleLfgCommand\<close>, \<open>RestoredTimer\<close> the one of
  \<open>loadSessionData\<close>, \<open>ConfirmationTimer\<close> the one of \<open>handleJoinLfg\<close>.
\<close>

datatype callback = RecruitmentTimer string | RestoredTimer string | ConfirmationTimer string

record timer =
  t_callback :: callback
  t_delay :: int

text \<open>External mutating calls on the communication platform, in the order attempted.\<close>

datatype call =
    ChannelDelete string
  | PermissionEdit string string
  | PermissionDelete string string

record state =
  activeSessions :: "(string \<times> session) list"
  userCreatedSessions :: "(string \<times> string) list"
  voiceChannelOperations :: "(string \<times> int) list"
  timers :: "(nat \<times> timer) list"
  nextTimeoutId :: nat
  db :: database
  guildChannels :: "string list"
  calls :: "call list"

record env =
  now :: int
  dbFails :: "db_op \<Rightarrow> bool"
  interactionFails :: bool
  editReplyFails :: bool
  fetchFinds :: bool
  botCanManage :: bool
  botCanConnect :: bool
  channelCreateFails :: bool
  channelDeleteFails :: bool
  categoryDeleteFails :: bool
  permissionFails :: bool
  newChannelId :: string
  newSessionId :: string
  guildExists :: "string \<Rightarrow> bool"
  channelExists :: "string \<Rightarrow> bool"

definition has :: "'k \<Rightarrow> ('k \<times> 'v) list \<Rightarrow> bool" where
  "has k m = (map_of m k \<noteq> None)"

subsection \<open>DatabaseStorage\<close>

text \<open>
  Every method is \<open>async\<close>: its result is \<open>Inl\<close> when the promise rejects and \<open>Inr\<close> when
  it resolves, paired with the database after the call. A query throws when the
  environment says so, and an insert also throws on a primary key that is taken.
\<close>

definition createSession :: "env \<Rightarrow> db_session \<Rightarrow> database \<Rightarrow> (error + db_session) \<times> database" where
  "createSession e s d =
     (let row = s\<lparr>ds_createdAt := now e, ds_expiresAt := now e + 20 * 60 * 1000, ds_isActive := True\<rparr>
      in if dbFails e QCreateSession \<or> ds_id s \<in> set (map ds_id (lfgSessions d))
         then (Inl DatabaseError, d)
         else (Inr row, d\<lparr>lfgSessions := lfgSessions d @ [row]\<rparr>))"

definition getSession :: "env \<Rightarrow> string \<Rightarrow> database \<Rightarrow> (error + db_session option) \<times> database" where
  "getSession e sessionId d =
     (if dbFails e QGetSession then (Inr None, d)
      else (Inr (find (\<lambda>r. ds_id r = sessionId \<and> ds_isActive r) (lfgSessions d)), d))"

definition apply_updates :: "session_updates \<Rightarrow> db_session \<Rightarrow> db_session" where
  "apply_updates u r =
     r\<lparr>ds_currentPlayers := (case u_currentPlayers u of None \<Rightarrow> ds_currentPlayers r | Some v \<Rightarrow> v),
       ds_status := (case u_status u of None \<Rightarrow> ds_status r | Some v \<Rightarrow> v),
       ds_confirmationStartTime :=
         (case u_confirmationStartTime u of None \<Rightarrow> ds_confirmationStartTime r | Some v \<Rightarrow> v),
       ds_voiceChannelId := (case u_voiceChannelId u of None \<Rightarrow> ds_voiceChannelId r | Some v \<Rightarrow> v)\<rparr>"

definition updateSession ::
    "env \<Rightarrow> string \<Rightarrow> session_updates \<Rightarrow> database \<Rightarrow> (error + db_session option) \<times> database" where
  "updateSession e sessionId updates d =
     (if dbFails e QUpdateSession then (Inr None, d)
      else
        let hit = (\<lambda>r. ds_id r = sessionId \<and> ds_isActive r);
            rows = map (\<lambda>r. if hit r then apply_updates updates r else r) (lfgSessions d)
        in (Inr (find hit rows), d\<lparr>lfgSessions := rows\<rparr>))"

definition deleteSession :: "env \<Rightarrow> string \<Rightarrow> database \<Rightarrow> (error + bool) \<times> database" where
  "deleteSession e sessionId d =
     (if dbFails e QDeleteSession then (Inr False, d)
      else
        (Inr (find (\<lambda>r. ds_id r = sessionId) (lfgSessions d) \<noteq> None),
         d\<lparr>lfgSessions :=
             map (\<lambda>r. if ds_id r = sessionId then r\<lparr>ds_isActive := False\<rparr> else r) (lfgSessions d)\<rparr>))"

definition getAllActiveSessions :: "env \<Rightarrow> database \<Rightarrow> (error + db_session list) \<times> database" where
  "getAllActiveSessions e d =
     (if dbFails e QGetAllActiveSessions then (Inr [], d)
      else (Inr (sort_key (\<lambda>r. - ds_createdAt r) (filter ds_isActive (lfgSessions d))), d))"

definition getGuildSettings ::
    "env \<Rightarrow> string \<Rightarrow> database \<Rightarrow> (error + (string \<times> string option) option) \<times> database" where
  "getGuildSettings e guildId d =
     (if dbFails e QGetGuildSettings then (Inr None, d)
      else (Inr (find (\<lambda>r. fst r = guildId) (guildSettings d)), d))"

definition setGuildSettings ::
    "env \<Rightarrow> string \<Rightarrow> string option \<Rightarrow> database \<Rightarrow> (error + (string \<times> string option) option) \<times> database" where
  "setGuildSettings e guildId lfgChannelId d =
     (if dbFails e QSetGuildSettings then (Inr None, d)
      else (Inr (Some (guildId, lfgChannelId)),
            d\<lparr>guildSettings := AList.update guildId lfgChannelId (guildSettings d)\<rparr>))"

definition cleanupExpiredSessions :: "env \<Rightarrow> database \<Rightarrow> (error + nat) \<times> database" where
  "cleanupExpiredSessions e d =
     (if dbFails e QCleanupExpiredSessions then (Inr 0, d)
      else
        let hit = (\<lambda>r. ds_isActive r \<and> ds_expiresAt r < now e)
        in (Inr (length (filter hit (lfgSessions d))),
            d\<lparr>lfgSessions := map (\<lambda>r. if hit r then r\<lparr>ds_isActive := False\<rparr> else r) (lfgSessions d)\<rparr>))"

definition getUserSession ::
    "env \<Rightarrow> string \<Rightarrow> database \<Rightarrow> (error + (string \<times> string) option) \<times> database" where
  "getUserSession e userId d =
     (if dbFails e QGetUserSession then (Inr None, d)
      else (Inr (find (\<lambda>r. fst r = userId) (userSessions d)), d))"

definition deleteUserSession :: "env \<Rightarrow> string \<Rightarrow> database \<Rightarrow> (error + bool) \<times> database" where
  "deleteUserSession e userId d =
     (if dbFails e QDeleteUserSession then (Inr False, d)
      else (Inr True, d\<lparr>userSessions := filter (\<lambda>r. fst r \<noteq> userId) (userSessions d)\<rparr>))"

definition createUserSession ::
    "env \<Rightarrow> string \<times> string \<Rightarrow> database \<Rightarrow> (error + string \<times> string) \<times> database" where
  "createUserSession e userSession d =
     (let d1 = snd (deleteUserSession e (fst userSession) d)
      in if dbFails e QCreateUserSession \<or> fst userSession \<in> set (map fst (userSessions d1))
         then (Inl DatabaseError, d1)
         else (Inr userSession, d1\<lparr>userSessions := userSessions d1 @ [userSession]\<rparr>))"

subsection \<open>Resource operation guard\<close>

text \<open>
  \<open>safeDeleteVoiceChannel(voiceChannel, reason)\<close>. The argument is the channel object,
  here its id (\<open>None\<close> for a null object, the empty string for a missing id). The body
  of the \<open>try\<close> is \<open>deleteChannelBody\<close>; the \<open>finally\<close> releases the key on every path.
  Disconnecting the members swallows its own errors and changes nothing modelled.
\<close>

definition deleteChannelBody :: "env \<Rightarrow> string \<Rightarrow> state \<Rightarrow> bool \<times> state" where
  "deleteChannelBody e channelId st =
     (if \<not> fetchFinds e then (True, st)
      else if \<not> botCanManage e then (False, st)
      else
        let st1 = st\<lparr>calls := calls st @ [ChannelDelete channelId]\<rparr>
        in if channelDeleteFails e then (False, st1)
           else
             let st2 = st1\<lparr>guildChannels := removeAll channelId (guildChannels st1)\<rparr>
             in if categoryDeleteFails e then (False, st2)
                else
                  (case find (\<lambda>s. voiceChannel s = Some channelId) (map snd (activeSessions st2)) of
                     None \<Rightarrow> (True, st2)
                   | Some s \<Rightarrow>
                       (True,
                        st2\<lparr>db := snd (updateSession e (s_id s)
                                 \<lparr>u_currentPlayers = None, u_status = None,
                                  u_confirmationStartTime = None, u_voiceChannelId = Some None\<rparr>
                                 (db st2))\<rparr>)))"

definition safeDeleteVoiceChannel :: "env \<Rightarrow> string option \<Rightarrow> state \<Rightarrow> bool \<times> state" where
  "safeDeleteVoiceChannel e vc st =
     (case vc of
        None \<Rightarrow> (False, st)
      | Some channelId \<Rightarrow>
          if channelId = [] then (False, st)
          else
            let operationKey = ''delete_'' @ channelId
            in if has operationKey (voiceChannelOperations st) then (False, st)
               else
                 let st1 = st\<lparr>voiceChannelOperations :=
                               AList.update operationKey (now e) (voiceChannelOperations st)\<rparr>;
                     r = deleteChannelBody e channelId st1
                 in (fst r,
                     (snd r)\<lparr>voiceChannelOperations :=
                               AList.delete operationKey (voiceChannelOperations (snd r))\<rparr>))"

text \<open>
  \<open>manageVoiceChannelAccess(voiceChannel, userId, action, reason)\<close>; \<open>action\<close> is the
  string the caller passes (\<open>'grant'\<close> or \<open>'revoke'\<close>; any other string does nothing and
  returns true).
\<close>

definition accessBody :: "env \<Rightarrow> string \<Rightarrow> string \<Rightarrow> string \<Rightarrow> state \<Rightarrow> bool \<times> state" where
  "accessBody e channelId userId action st =
     (if action = ''grant'' then
        (\<not> permissionFails e, st\<lparr>calls := calls st @ [PermissionEdit channelId userId]\<rparr>)
      else if action = ''revoke'' then
        (\<not> permissionFails e, st\<lparr>calls := calls st @ [PermissionDelete channelId userId]\<rparr>)
      else (True, st))"

definition manageVoiceChannelAccess ::
    "env \<Rightarrow> string option \<Rightarrow> string \<Rightarrow> string \<Rightarrow> state \<Rightarrow> bool \<times> state" where
  "manageVoiceChannelAccess e vc userId action st =
     (case vc of
        None \<Rightarrow> (False, st)
      | Some channelId \<Rightarrow>
          if userId = [] then (False, st)
          else
            let operationKey = ''permission_'' @ channelId @ ''_'' @ userId
            in if has operationKey (voiceChannelOperations st) then (False, st)
               else
                 let st1 = st\<lparr>voiceChannelOperations :=
                               AList.update operationKey (now e) (voiceChannelOperations st)\<rparr>;
                     r = accessBody e channelId userId action st1
                 in (fst r,
                     (snd r)\<lparr>voiceChannelOperations :=
                               AList.delete operationKey (voiceChannelOperations (snd r))\<rparr>))"

text \<open>
  The staleness sweep inside the five-minute \<open>setInterval\<close>: every entry of
  \<open>voiceChannelOperations\<close> older than 30000 ms is deleted.
\<close>

definition sweepOperations :: "int \<Rightarrow> (string \<times> int) list \<Rightarrow> (string \<times> int) list" where
  "sweepOperations t ops =
     foldl (\<lambda>m entry. if t - snd entry > 30000 then AList.delete (fst entry) m else m) ops ops"

text \<open>
  The whole callback of that \<open>setInterval\<close>: \<open>saveSessionData\<close> only logs, then
  \<open>storage.cleanupExpiredSessions\<close> marks every row past its \<open>expiresAt\<close> inactive in the
  database (the sessions in memory are not touched), then the staleness sweep runs.
\<close>

definition syncInterval :: "env \<Rightarrow> state \<Rightarrow> state" where
  "syncInterval e st =
     st\<lparr>db := snd (cleanupExpiredSessions e (db st)),
        voiceChannelOperations := sweepOperations (now e) (voiceChannelOperations st)\<rparr>"

subsection \<open>Helpers of the handlers\<close>

text \<open>\<open>[...new Set(xs)]\<close>: the first occurrence of every element, in order.\<close>

fun dedup :: "'a list \<Rightarrow> 'a list" where
  "dedup [] = []"
| "dedup (x # xs) = x # dedup (filter (\<lambda>y. y \<noteq> x) xs)"

text \<open>A mutation of the session object that \<open>activeSessions\<close> holds under a key.\<close>

definition modifySession :: "string \<Rightarrow> (session \<Rightarrow> session) \<Rightarrow> state \<Rightarrow> state" where
  "modifySession sessionId f st =
     st\<lparr>activeSessions := AList.map_entry sessionId f (activeSessions st)\<rparr>"

definition setTimeout :: "callback \<Rightarrow> int \<Rightarrow> state \<Rightarrow> state" where
  "setTimeout cb delay st =
     st\<lparr>timers := timers st @ [(nextTimeoutId st, \<lparr>t_callback = cb, t_delay = delay\<rparr>)],
        nextTimeoutId := Suc (nextTimeoutId st)\<rparr>"

definition clearTimeout :: "nat \<Rightarrow> state \<Rightarrow> state" where
  "clearTimeout t st = st\<lparr>timers := AList.delete t (timers st)\<rparr>"

text \<open>\<open>guild.channels.cache.get(session.voiceChannel)\<close>.\<close>

definition cacheGet :: "state \<Rightarrow> string option \<Rightarrow> string option" where
  "cacheGet st vc =
     (case vc of
        None \<Rightarrow> None
      | Some c \<Rightarrow> if c \<in> set (guildChannels st) then Some c else None)"

text \<open>
  The unguarded deletion the handlers use: look the channel up in the cache and, when it
  is there, \<open>await channel.delete()\<close> inside a \<open>try\<close> whose \<open>catch\<close> only logs.
\<close>

definition deleteChannelDirect :: "env \<Rightarrow> string option \<Rightarrow> state \<Rightarrow> state" where
  "deleteChannelDirect e vc st =
     (case cacheGet st vc of
        None \<Rightarrow> st
      | Some c \<Rightarrow>
          let st1 = st\<lparr>calls := calls st @ [ChannelDelete c]\<rparr>
          in if channelDeleteFails e then st1
             else st1\<lparr>guildChannels := removeAll c (guildChannels st1)\<rparr>)"

text \<open>\<open>voiceChannel.permissionOverwrites.delete(userId)\<close> inside a \<open>try\<close>, unguarded.\<close>

definition revokeDirect :: "string option \<Rightarrow> string list \<Rightarrow> env \<Rightarrow> state \<Rightarrow> state" where
  "revokeDirect vc users e st =
     (case cacheGet st vc of
        None \<Rightarrow> st
      | Some c \<Rightarrow>
          st\<lparr>calls := calls st @
                map (PermissionDelete c) (if permissionFails e then take 1 users else users)\<rparr>)"

definition deleteUserSessions :: "env \<Rightarrow> string list \<Rightarrow> database \<Rightarrow> database" where
  "deleteUserSessions e players d = foldl (\<lambda>d1 playerId. snd (deleteUserSession e playerId d1)) d players"

subsection \<open>Session state machine\<close>

definition reopenLfg :: "env \<Rightarrow> string \<Rightarrow> state \<Rightarrow> state" where
  "reopenLfg e sessionId st =
     (case map_of (activeSessions st) sessionId of
        None \<Rightarrow> st
      | Some session \<Rightarrow>
          if currentPlayers session = [] then
            let st1 = deleteChannelDirect e (voiceChannel session) st
            in st1\<lparr>activeSessions := AList.delete (s_id session) (activeSessions st1),
                   userCreatedSessions := AList.delete (creator session) (userCreatedSessions st1)\<rparr>
          else modifySession sessionId (\<lambda>s. s\<lparr>status := Waiting\<rparr>) st)"

definition finalizeSession :: "string \<Rightarrow> state \<Rightarrow> state" where
  "finalizeSession sessionId st = modifySession sessionId (\<lambda>s. s\<lparr>status := Active\<rparr>) st"

definition handleConfirmationTimeout :: "env \<Rightarrow> string \<Rightarrow> state \<Rightarrow> state" where
  "handleConfirmationTimeout e sessionId st =
     (case map_of (activeSessions st) sessionId of
        None \<Rightarrow> st
      | Some session \<Rightarrow>
          if status session \<noteq> Confirming then st
          else
            let st1 = modifySession sessionId (\<lambda>s. s\<lparr>timeoutId := None\<rparr>) st;
                unconfirmedPlayers =
                  filter (\<lambda>i. i \<notin> set (confirmedPlayers session)) (currentPlayers session);
                st2 = revokeDirect (voiceChannel session) unconfirmedPlayers e st1;
                st3 = modifySession sessionId
                        (\<lambda>s. s\<lparr>currentPlayers := dedup (creator s # confirmedPlayers s),
                                confirmedPlayers := [],
                                status := Waiting,
                                confirmationStartTime := None\<rparr>) st2
            in reopenLfg e sessionId st3)"

definition expireSession :: "env \<Rightarrow> string \<Rightarrow> state \<Rightarrow> state" where
  "expireSession e sessionId st =
     (case map_of (activeSessions st) sessionId of
        None \<Rightarrow> st
      | Some session \<Rightarrow>
          let st1 = deleteChannelDirect e (voiceChannel session) st;
              st2 = (case timeoutId session of None \<Rightarrow> st1 | Some t \<Rightarrow> clearTimeout t st1);
              created = (if creator session = [] then userCreatedSessions st2
                         else AList.delete (creator session) (userCreatedSessions st2));
              st3 = st2\<lparr>activeSessions := AList.delete sessionId (activeSessions st2),
                        userCreatedSessions := filter (\<lambda>entry. snd entry \<noteq> sessionId) created\<rparr>;
              d1 = deleteUserSessions e (currentPlayers session) (db st3)
          in st3\<lparr>db := snd (deleteSession e sessionId d1)\<rparr>)"

definition handleLfgTimeout :: "env \<Rightarrow> string \<Rightarrow> state \<Rightarrow> state" where
  "handleLfgTimeout e sessionId st = expireSession e sessionId st"

definition handleJoinLfg :: "env \<Rightarrow> string \<Rightarrow> string \<Rightarrow> state \<Rightarrow> state" where
  "handleJoinLfg e user sessionId st =
     (if interactionFails e then st
      else
        case map_of (activeSessions st) sessionId of
          None \<Rightarrow> st
        | Some session \<Rightarrow>
            if user \<in> set (currentPlayers session) then st
            else if int (length (currentPlayers session)) \<ge> playersNeeded session then st
            else if find (\<lambda>s. s_id s \<noteq> sessionId \<and> user \<in> set (currentPlayers s))
                      (map snd (activeSessions st)) \<noteq> None then st
            else
              let players = currentPlayers session @ [user];
                  st1 = modifySession sessionId (\<lambda>s. s\<lparr>currentPlayers := currentPlayers s @ [user]\<rparr>) st;
                  w1 = updateSession e sessionId
                         \<lparr>u_currentPlayers = Some players, u_status = Some (status session),
                          u_confirmationStartTime = None, u_voiceChannelId = None\<rparr> (db st1);
                  d1 = (case fst w1 of
                          Inl err \<Rightarrow> snd w1
                        | Inr r \<Rightarrow> snd (createUserSession e (user, sessionId) (snd w1)));
                  st2 = st1\<lparr>db := d1\<rparr>;
                  st3 = (case cacheGet st2 (voiceChannel session) of
                           None \<Rightarrow> st2
                         | Some c \<Rightarrow> snd (manageVoiceChannelAccess e (Some c) user ''grant'' st2))
              in if int (length players) = playersNeeded session then
                   let st4 = modifySession sessionId
                               (\<lambda>s. s\<lparr>status := Confirming, confirmationStartTime := Some (now e)\<rparr>) st3;
                       st5 = (case timeoutId session of None \<Rightarrow> st4 | Some t \<Rightarrow> clearTimeout t st4);
                       st6 = modifySession sessionId (\<lambda>s. s\<lparr>timeoutId := Some (nextTimeoutId st5)\<rparr>)
                               (setTimeout (ConfirmationTimer sessionId) 300000 st5)
                   in st6\<lparr>db := snd (updateSession e sessionId
                                   \<lparr>u_currentPlayers = Some players, u_status = Some Confirming,
                                    u_confirmationStartTime = Some (Some (now e)),
                                    u_voiceChannelId = None\<rparr> (db st6))\<rparr>
                 else st3)"

definition handleConfirmation :: "env \<Rightarrow> string \<Rightarrow> string \<Rightarrow> state \<Rightarrow> state" where
  "handleConfirmation e user sessionId st =
     (if interactionFails e then st
      else
        case map_of (activeSessions st) sessionId of
          None \<Rightarrow> st
        | Some session \<Rightarrow>
            if user \<notin> set (currentPlayers session) then st
            else if status session \<noteq> Confirming then st
            else if user \<in> set (confirmedPlayers session) then st
            else
              let st1 = modifySession sessionId
                          (\<lambda>s. s\<lparr>confirmedPlayers := confirmedPlayers s @ [user]\<rparr>) st
              in if length (confirmedPlayers session @ [user]) = length (currentPlayers session) then
                   let st2 = (case timeoutId session of
                                None \<Rightarrow> st1
                              | Some t \<Rightarrow>
                                  modifySession sessionId (\<lambda>s. s\<lparr>timeoutId := None\<rparr>) (clearTimeout t st1));
                       st3 = modifySession sessionId (\<lambda>s. s\<lparr>confirmationStartTime := None\<rparr>) st2
                   in finalizeSession sessionId st3
                 else st1)"

definition handleDecline :: "env \<Rightarrow> string \<Rightarrow> string \<Rightarrow> state \<Rightarrow> state" where
  "handleDecline e user sessionId st =
     (if interactionFails e then st
      else
        case map_of (activeSessions st) sessionId of
          None \<Rightarrow> st
        | Some session \<Rightarrow>
            if user \<notin> set (currentPlayers session) then st
            else if user = creator session then
              let st1 = (case timeoutId session of None \<Rightarrow> st | Some t \<Rightarrow> clearTimeout t st);
                  st2 = deleteChannelDirect e (voiceChannel session) st1;
                  st3 = st2\<lparr>activeSessions := AList.delete sessionId (activeSessions st2),
                            userCreatedSessions :=
                              foldl (\<lambda>m playerId. AList.delete playerId m)
                                (AList.delete (creator session) (userCreatedSessions st2))
                                (currentPlayers session)\<rparr>;
                  d1 = deleteUserSessions e (currentPlayers session) (db st3)
              in st3\<lparr>db := snd (deleteSession e sessionId d1)\<rparr>
            else
              let st1 = modifySession sessionId
                          (\<lambda>s. s\<lparr>currentPlayers := filter (\<lambda>i. i \<noteq> user) (currentPlayers s),
                                  confirmedPlayers := filter (\<lambda>i. i \<noteq> user) (confirmedPlayers s)\<rparr>) st;
                  st2 = (case timeoutId session of
                           None \<Rightarrow> st1
                         | Some t \<Rightarrow>
                             modifySession sessionId (\<lambda>s. s\<lparr>timeoutId := None\<rparr>) (clearTimeout t st1));
                  st3 = modifySession sessionId (\<lambda>s. s\<lparr>confirmationStartTime := None\<rparr>) st2;
                  st4 = revokeDirect (voiceChannel session) [user] e st3
              in if editReplyFails e then st4 else reopenLfg e sessionId st4)"

definition handleLeaveLfg :: "env \<Rightarrow> string \<Rightarrow> string \<Rightarrow> state \<Rightarrow> state" where
  "handleLeaveLfg e user sessionId st =
     (case map_of (activeSessions st) sessionId of
        None \<Rightarrow> st
      | Some session \<Rightarrow>
          if user \<notin> set (currentPlayers session) then st
          else if user = creator session then st
          else if interactionFails e then st
          else
            let st1 = modifySession sessionId
                        (\<lambda>s. s\<lparr>currentPlayers := filter (\<lambda>i. i \<noteq> user) (currentPlayers s),
                                confirmedPlayers := filter (\<lambda>i. i \<noteq> user) (confirmedPlayers s)\<rparr>) st;
                st2 = (case cacheGet st1 (voiceChannel session) of
                         None \<Rightarrow> st1
                       | Some c \<Rightarrow> snd (manageVoiceChannelAccess e (Some c) user ''revoke'' st1))
            in if filter (\<lambda>i. i \<noteq> user) (currentPlayers session) = [] then
                 let st3 = deleteChannelDirect e (voiceChannel session) st2;
                     st4 = st3\<lparr>activeSessions := AList.delete sessionId (activeSessions st3),
                               userCreatedSessions :=
                                 AList.delete (creator session) (userCreatedSessions st3)\<rparr>
                 in st4\<lparr>db := snd (deleteSession e sessionId (db st4))\<rparr>
               else reopenLfg e sessionId st2)"

text \<open>
  \<open>removeMemberFromAllSessions(memberId)\<close>, called by the kick and ban moderation
  actions: the body of its loop over \<open>activeSessions\<close>, then the loop.
\<close>

definition removeMemberStep :: "env \<Rightarrow> string \<Rightarrow> state \<Rightarrow> string \<Rightarrow> state" where
  "removeMemberStep e memberId st sessionId =
     (case map_of (activeSessions st) sessionId of
        None \<Rightarrow> st
      | Some session \<Rightarrow>
          if memberId \<in> set (currentPlayers session) \<or> memberId \<in> set (confirmedPlayers session) then
            let st1 = modifySession sessionId
                        (\<lambda>s. s\<lparr>currentPlayers := filter (\<lambda>i. i \<noteq> memberId) (currentPlayers s),
                                confirmedPlayers := filter (\<lambda>i. i \<noteq> memberId) (confirmedPlayers s)\<rparr>) st;
                st2 = revokeDirect (voiceChannel session) [memberId] e st1
            in if creator session = memberId then
                 let st3 = deleteChannelDirect e (voiceChannel session) st2
                 in st3\<lparr>activeSessions := AList.delete sessionId (activeSessions st3),
                        userCreatedSessions := AList.delete memberId (userCreatedSessions st3)\<rparr>
               else if filter (\<lambda>i. i \<noteq> memberId) (currentPlayers session) = [] then
                 let st3 = deleteChannelDirect e (voiceChannel session) st2
                 in st3\<lparr>activeSessions := AList.delete sessionId (activeSessions st3),
                        userCreatedSessions := AList.delete (creator session) (userCreatedSessions st3)\<rparr>
               else reopenLfg e sessionId st2
          else st)"

definition removeMemberFromAllSessions :: "env \<Rightarrow> string \<Rightarrow> state \<Rightarrow> state" where
  "removeMemberFromAllSessions e memberId st =
     foldl (removeMemberStep e memberId) st (map fst (activeSessions st))"

subsection \<open>Timers and the periodic sweep\<close>

text \<open>
  The callback scheduled by \<open>handleLfgCommand\<close> (20 minutes) re-reads the session and
  expires it only when it still has one member and is still waiting; the callback
  scheduled by \<open>loadSessionData\<close> calls \<open>expireSession\<close> directly.
\<close>

definition recruitmentTimerFires :: "env \<Rightarrow> string \<Rightarrow> state \<Rightarrow> state" where
  "recruitmentTimerFires e sessionId st =
     (case map_of (activeSessions st) sessionId of
        None \<Rightarrow> st
      | Some currentSession \<Rightarrow>
          if length (currentPlayers currentSession) = 1 \<and> status currentSession = Waiting
          then expireSession e sessionId st
          else st)"

definition restoredTimerFires :: "env \<Rightarrow> string \<Rightarrow> state \<Rightarrow> state" where
  "restoredTimerFires e sessionId st = expireSession e sessionId st"

definition fireTimer :: "env \<Rightarrow> nat \<Rightarrow> state \<Rightarrow> state" where
  "fireTimer e t st =
     (case map_of (timers st) t of
        None \<Rightarrow> st
      | Some tm \<Rightarrow>
          let st1 = st\<lparr>timers := AList.delete t (timers st)\<rparr>
          in (case t_callback tm of
                RecruitmentTimer sessionId \<Rightarrow> recruitmentTimerFires e sessionId st1
              | RestoredTimer sessionId \<Rightarrow> restoredTimerFires e sessionId st1
              | ConfirmationTimer sessionId \<Rightarrow> handleConfirmationTimeout e sessionId st1))"

text \<open>
  The two checks of the one-minute cron job. Each walks \<open>activeSessions\<close>; the handlers
  they call delete at most the entry being visited, so the walk is a fold over the keys
  with a fresh lookup at every key. A timestamp is truthy when it is set and not 0.
\<close>

definition checkExpiredConfirmations :: "env \<Rightarrow> state \<Rightarrow> state" where
  "checkExpiredConfirmations e st =
     foldl (\<lambda>s sessionId.
              case map_of (activeSessions s) sessionId of
                None \<Rightarrow> s
              | Some session \<Rightarrow>
                  (case confirmationStartTime session of
                     None \<Rightarrow> s
                   | Some started \<Rightarrow>
                       if status session = Confirming \<and> started \<noteq> 0
                          \<and> now e - started \<ge> 2 * 60 * 1000
                       then handleConfirmationTimeout e sessionId s
                       else s))
       st (map fst (activeSessions st))"

definition checkExpiredLfgSessions :: "env \<Rightarrow> state \<Rightarrow> state" where
  "checkExpiredLfgSessions e st =
     foldl (\<lambda>s sessionId.
              case map_of (activeSessions s) sessionId of
                None \<Rightarrow> s
              | Some session \<Rightarrow>
                  if status session = Waiting \<and> length (currentPlayers session) = 1
                     \<and> now e - createdAt session \<ge> 20 * 60 * 1000
                  then handleLfgTimeout e sessionId s
                  else s)
       st (map fst (activeSessions st))"

subsection \<open>Creating a session\<close>

text \<open>
  \<open>handleLfgCommand\<close> in three parts. \<open>staleCleanup\<close> is the two membership checks at its
  head; it gives the state they leave behind and whether the handler goes on (\<open>True\<close>)
  or answers "you already have a session" and returns (\<open>False\<close>). The cleanup of an
  orphaned creator reference is kept also when the second check then returns.
  \<open>outerCatch\<close> is the \<open>catch\<close> of the big \<open>try\<close>: after removing a partial session it
  evaluates \<open>if (voiceChannel)\<close>, but \<open>voiceChannel\<close> is a \<open>const\<close> of the \<open>try\<close> block and
  is not in scope in the \<open>catch\<close> block, so the test throws a ReferenceError and neither
  the channel deletion nor the failure reply below it runs. \<open>createLfg\<close> is the body of
  that \<open>try\<close>; creating the channel throws when \<open>guild.channels.create\<close> rejects or when
  the bot lacks the ManageChannels or the Connect permission. The argument \<open>valid\<close>
  stands for the three validation checks (designated channel, supported game, mode of
  that game). Every early return is \<open>return interaction.editReply(...)\<close>, so the handler
  rejects when that reply rejects.
\<close>

definition staleCleanup :: "env \<Rightarrow> string \<Rightarrow> state \<Rightarrow> bool \<times> state" where
  "staleCleanup e user st =
     (let existing = (case map_of (userCreatedSessions st) user of
                        None \<Rightarrow> None
                      | Some i \<Rightarrow> if i = [] then None else Some i)
      in if (case existing of None \<Rightarrow> False | Some existingSessionId \<Rightarrow> has existingSessionId (activeSessions st))
         then (False, st)
         else
           let st1 = (case existing of
                        None \<Rightarrow> st
                      | Some existingSessionId \<Rightarrow>
                          let m = st\<lparr>userCreatedSessions := AList.delete user (userCreatedSessions st)\<rparr>
                          in (case fst (getSession e existingSessionId (db m)) of
                                Inr (Some dbSession) \<Rightarrow>
                                  m\<lparr>db := snd (deleteSession e existingSessionId (db m))\<rparr>
                              | Inr None \<Rightarrow> m
                              | Inl err \<Rightarrow> m))
           in (case find (\<lambda>p. user \<in> set (currentPlayers (snd p))) (activeSessions st1) of
                 None \<Rightarrow> (True, st1)
               | Some userInSession \<Rightarrow>
                   let splice = modifySession (fst userInSession)
                                  (\<lambda>s. s\<lparr>currentPlayers := remove1 user (currentPlayers s)\<rparr>) st1
                   in (case fst (getSession e (s_id (snd userInSession)) (db st1)) of
                         Inr (Some dbSession) \<Rightarrow>
                           if user \<in> set (ds_currentPlayers dbSession) then (False, st1)
                           else (True, splice)
                       | Inr None \<Rightarrow> (True, splice)
                       | Inl err \<Rightarrow> (False, st1))))"

definition outerCatch :: "env \<Rightarrow> string \<Rightarrow> state \<Rightarrow> error option \<times> state" where
  "outerCatch e user st =
     (Some ReferenceError,
      (case map_of (userCreatedSessions st) user of
         None \<Rightarrow> st
       | Some partialSessionId \<Rightarrow>
           st\<lparr>activeSessions := AList.delete partialSessionId (activeSessions st),
              userCreatedSessions := AList.delete user (userCreatedSessions st),
              db := snd (deleteSession e partialSessionId (db st))\<rparr>))"

definition createLfg :: "env \<Rightarrow> string \<Rightarrow> int \<Rightarrow> state \<Rightarrow> error option \<times> state" where
  "createLfg e user players st =
     (if channelCreateFails e then outerCatch e user st
      else if \<not> (botCanManage e \<and> botCanConnect e) then outerCatch e user st
      else
        let vc = newChannelId e;
            sessionId = newSessionId e;
            st1 = st\<lparr>guildChannels := guildChannels st @ [vc]\<rparr>;
            sessionData =
              \<lparr>ds_id = sessionId, ds_creatorId = user, ds_playersNeeded = players,
               ds_status = Waiting, ds_currentPlayers = [user], ds_confirmedPlayers = [],
               ds_voiceChannelId = Some vc, ds_confirmationStartTime = None,
               ds_createdAt = now e, ds_expiresAt = now e, ds_isActive = True\<rparr>;
            c1 = createSession e sessionData (db st1);
            c2 = (case fst c1 of
                    Inl err \<Rightarrow> (False, snd c1)
                  | Inr r \<Rightarrow>
                      (case createUserSession e (user, sessionId) (snd c1) of
                         (Inl err, d) \<Rightarrow> (False, d)
                       | (Inr r2, d) \<Rightarrow> (True, d)))
        in if \<not> fst c2 then
             let st2 = st1\<lparr>db := snd c2, calls := calls st1 @ [ChannelDelete vc]\<rparr>;
                 st3 = (if channelDeleteFails e then st2
                        else st2\<lparr>guildChannels := removeAll vc (guildChannels st2)\<rparr>)
             in if editReplyFails e then outerCatch e user st3 else (None, st3)
           else
             let session =
                   \<lparr>s_id = sessionId, creator = user, playersNeeded = players,
                    currentPlayers = [user], confirmedPlayers = [], voiceChannel = Some vc,
                    createdAt = now e, confirmationStartTime = None, status = Waiting,
                    timeoutId = None\<rparr>;
                 st2 = st1\<lparr>db := snd c2,
                           activeSessions := AList.update sessionId session (activeSessions st1),
                           userCreatedSessions := AList.update user sessionId (userCreatedSessions st1)\<rparr>;
                 st3 = modifySession sessionId (\<lambda>s. s\<lparr>timeoutId := Some (nextTimeoutId st2)\<rparr>)
                         (setTimeout (RecruitmentTimer sessionId) (20 * 60 * 1000) st2)
             in if editReplyFails e then outerCatch e user st3 else (None, st3))"

definition handleLfgCommand :: "env \<Rightarrow> string \<Rightarrow> int \<Rightarrow> bool \<Rightarrow> state \<Rightarrow> error option \<times> state" where
  "handleLfgCommand e user players valid st =
     (if interactionFails e then (Some DiscordError, st)
      else
        let r = staleCleanup e user st
        in if fst r \<and> valid then createLfg e user players (snd r)
           else (if editReplyFails e then Some DiscordError else None, snd r))"

subsection \<open>Restoration\<close>

text \<open>
  \<open>loadSessionData\<close>: the body of its loop over the rows the database marks active, then
  the whole procedure. \<open>guildExists\<close> and \<open>channelExists\<close> say whether the guild and the
  announcement channel of a session (by its id) are still in the client's cache.
\<close>

definition restoreSession :: "env \<Rightarrow> state \<Rightarrow> db_session \<Rightarrow> state" where
  "restoreSession e st dbSession =
     (if ds_expiresAt dbSession > now e then
        if guildExists e (ds_id dbSession) \<and> channelExists e (ds_id dbSession) then
          let session =
                \<lparr>s_id = ds_id dbSession, creator = ds_creatorId dbSession,
                 playersNeeded = ds_playersNeeded dbSession,
                 currentPlayers = ds_currentPlayers dbSession,
                 confirmedPlayers = ds_confirmedPlayers dbSession,
                 voiceChannel = ds_voiceChannelId dbSession,
                 createdAt = ds_createdAt dbSession,
                 confirmationStartTime = ds_confirmationStartTime dbSession,
                 status = ds_status dbSession, timeoutId = None\<rparr>;
              st1 = st\<lparr>activeSessions := AList.update (ds_id dbSession) session (activeSessions st)\<rparr>;
              st2 = (if ds_creatorId dbSession = [] then st1
                     else st1\<lparr>userCreatedSessions :=
                               AList.update (ds_creatorId dbSession) (ds_id dbSession)
                                 (userCreatedSessions st1)\<rparr>);
              timeRemaining = ds_expiresAt dbSession - now e
          in if timeRemaining > 0 then
               modifySession (ds_id dbSession) (\<lambda>s. s\<lparr>timeoutId := Some (nextTimeoutId st2)\<rparr>)
                 (setTimeout (RestoredTimer (ds_id dbSession)) timeRemaining st2)
             else st2
        else
          let st1 = st\<lparr>db := snd (deleteSession e (ds_id dbSession) (db st))\<rparr>
          in if guildExists e (ds_id dbSession) then
               (case cacheGet st1 (ds_voiceChannelId dbSession) of
                  None \<Rightarrow> st1
                | Some c \<Rightarrow> snd (safeDeleteVoiceChannel e (Some c) st1))
             else st1
      else st\<lparr>db := snd (deleteSession e (ds_id dbSession) (db st))\<rparr>)"

definition loadSessionData :: "env \<Rightarrow> state \<Rightarrow> state" where
  "loadSessionData e st =
     (let st0 = st\<lparr>activeSessions := [], userCreatedSessions := []\<rparr>;
          dbSessions = (case fst (getAllActiveSessions e (db st0)) of Inl err \<Rightarrow> [] | Inr rows \<Rightarrow> rows);
          st1 = foldl (restoreSession e) st0 dbSessions
      in st1\<lparr>db := snd (cleanupExpiredSessions e (db st1))\<rparr>)"

subsection \<open>Transitions of the public API and the subset invariant\<close>

text \<open>
  The button dispatcher of \<open>interactionCreate\<close> sends \<open>join_lfg_\<close>, \<open>confirm_\<close>,
  \<open>decline_\<close> and \<open>leave_lfg_\<close> to their handlers; the confirmation timer and the sweep
  call \<open>handleConfirmationTimeout\<close>; the kick and ban actions of \<open>handleModCommand\<close> call
  \<open>removeMemberFromAllSessions\<close>.
\<close>

datatype event =
    Join string string
  | Confirm string string
  | Decline string string
  | Leave string string
  | ConfirmationTimeout string
  | ModerationRemoval string

fun transition :: "env \<Rightarrow> event \<Rightarrow> state \<Rightarrow> state" where
  "transition e (Join user sessionId) st = handleJoinLfg e user sessionId st"
| "transition e (Confirm user sessionId) st = handleConfirmation e user sessionId st"
| "transition e (Decline user sessionId) st = handleDecline e user sessionId st"
| "transition e (Leave user sessionId) st = handleLeaveLfg e user sessionId st"
| "transition e (ConfirmationTimeout sessionId) st = handleConfirmationTimeout e sessionId st"
| "transition e (ModerationRemoval memberId) st = removeMemberFromAllSessions e memberId st"

definition regOk :: "(string \<times> session) list \<Rightarrow> bool" where
  "regOk reg = (\<forall>p \<in> set reg. set (confirmedPlayers (snd p)) \<subseteq> set (currentPlayers (snd p)))"

definition confirmedWithinCurrent :: "state \<Rightarrow> bool" where
  "confirmedWithinCurrent st = regOk (activeSessions st)"

subsection \<open>Concrete sessions used as examples\<close>

text \<open>
  An environment in which nothing fails, at clock 1000000 ms; a capacity-3 session of
  creator A that filled at 880000 ms and in which only A has confirmed, with the
  database row as \<open>handleJoinLfg\<close> last wrote it; and variants of that state.
\<close>

definition env0 :: env where
  "env0 =
     \<lparr>now = 1000000, dbFails = (\<lambda>q. False), interactionFails = False, editReplyFails = False,
      fetchFinds = True, botCanManage = True, botCanConnect = True, channelCreateFails = False,
      channelDeleteFails = False, categoryDeleteFails = False, permissionFails = False,
      newChannelId = ''vc2'', newSessionId = ''s2'',
      guildExists = (\<lambda>s. True), channelExists = (\<lambda>s. True)\<rparr>"

definition sessionABC :: session where
  "sessionABC =
     \<lparr>s_id = ''s1'', creator = ''A'', playersNeeded = 3,
      currentPlayers = [''A'', ''B'', ''C''], confirmedPlayers = [''A''],
      voiceChannel = Some ''vc1'', createdAt = 0, confirmationStartTime = Some 880000,
      status = Confirming, timeoutId = Some 0\<rparr>"

definition rowABC :: db_session where
  "rowABC =
     \<lparr>ds_id = ''s1'', ds_creatorId = ''A'', ds_playersNeeded = 3, ds_status = Confirming,
      ds_currentPlayers = [''A'', ''B'', ''C''], ds_confirmedPlayers = [],
      ds_voiceChannelId = Some ''vc1'', ds_confirmationStartTime = Some 880000,
      ds_createdAt = 0, ds_expiresAt = 1200000, ds_isActive = True\<rparr>"

definition stateABC :: state where
  "stateABC =
     \<lparr>activeSessions = [(''s1'', sessionABC)],
      userCreatedSessions = [(''A'', ''s1'')],
      voiceChannelOperations = [],
      timers = [(0, \<lparr>t_callback = ConfirmationTimer ''s1'', t_delay = 300000\<rparr>)],
      nextTimeoutId = 1,
      db = \<lparr>lfgSessions = [rowABC], guildSettings = [],
            userSessions = [(''A'', ''s1''), (''B'', ''s1''), (''C'', ''s1'')]\<rparr>,
      guildChannels = [''vc1''],
      calls = []\<rparr>"

text \<open>The same session when A and B have confirmed and C is the last one missing.\<close>

definition stateLast :: state where
  "stateLast =
     stateABC\<lparr>activeSessions := [(''s1'', sessionABC\<lparr>confirmedPlayers := [''A'', ''B'']\<rparr>)]\<rparr>"

text \<open>The session while it still waits for its third member, C not yet in it.\<close>

definition stateWaiting :: state where
  "stateWaiting =
     stateABC\<lparr>activeSessions :=
                [(''s1'', sessionABC\<lparr>currentPlayers := [''A'', ''B''], confirmedPlayers := [],
                                     confirmationStartTime := None, status := Waiting,
                                     timeoutId := None\<rparr>)],
              timers := [],
              db := \<lparr>lfgSessions =
                       [rowABC\<lparr>ds_currentPlayers := [''A'', ''B''], ds_status := Waiting,
                               ds_confirmationStartTime := None\<rparr>],
                     guildSettings = [],
                     userSessions = [(''A'', ''s1''), (''B'', ''s1'')]\<rparr>\<rparr>"

text \<open>
  A process that has just started: nothing in memory, the waiting two-member session
  in the database.
\<close>

definition stateRestart :: state where
  "stateRestart = stateWaiting\<lparr>activeSessions := [], userCreatedSessions := []\<rparr>"

text \<open>A state in which a deletion of channel vc1 is registered as in flight.\<close>

definition stateBusy :: state where
  "stateBusy =
     stateABC\<lparr>voiceChannelOperations :=
                [(''delete_vc1'', 999000), (''permission_vc1_B'', 999500)]\<rparr>"

text \<open>A process with no session at all, and an environment whose user-session insert fails.\<close>

definition stateEmpty :: state where
  "stateEmpty =
     \<lparr>activeSessions = [], userCreatedSessions = [], voiceChannelOperations = [],
      timers = [], nextTimeoutId = 0,
      db = \<lparr>lfgSessions = [], guildSettings = [], userSessions = []\<rparr>,
      guildChannels = [], calls = []\<rparr>"

definition envDown :: env where
  "envDown = env0\<lparr>dbFails := (\<lambda>q. True)\<rparr>"

text \<open>
  A run in which nothing fails, at clock 1300000 ms, when the waiting session of A and
  B is past the \<open>expiresAt\<close> of its row (1200000): the five-minute interval marks the
  row inactive, C joins and fills the session, B confirms, and then B runs \<open>/lfg\<close> for
  a session of two.
\<close>

definition envLate :: env where
  "envLate = env0\<lparr>now := 1300000\<rparr>"

definition stateExpiredRow :: state where
  "stateExpiredRow = syncInterval envLate stateWaiting"

definition stateBConfirmed :: state where
  "stateBConfirmed =
     handleConfirmation envLate ''B'' ''s1'' (handleJoinLfg envLate ''C'' ''s1'' stateExpiredRow)"

definition stateBLeftByCleanup :: state where
  "stateBLeftByCleanup = snd (handleLfgCommand envLate ''B'' 2 True stateBConfirmed)"

section \<open>Properties\<close>

subsection \<open>Auxiliary facts\<close>

lemma inv_regOk: "confirmedWithinCurrent st = regOk (activeSessions st)"
  by (simp add: confirmedWithinCurrent_def)

lemma delete_update_fresh:
  "\<not> has k m \<Longrightarrow> AList.delete k (AList.update k v m) = m"
  by (simp add: has_def delete_update_same map_of_eq_None_iff)

lemma deleteChannelBody_ops:
  "voiceChannelOperations (snd (deleteChannelBody e c st)) = voiceChannelOperations st"
  by (simp add: deleteChannelBody_def Let_def split: option.splits)

lemma accessBody_ops:
  "voiceChannelOperations (snd (accessBody e c u a st)) = voiceChannelOperations st"
  by (simp add: accessBody_def)

lemma sweep_subset:
  "fst ` set (foldl (\<lambda>m entry. if t - snd entry > 30000 then AList.delete (fst entry) m else m) m xs)
     \<subseteq> fst ` set m"
proof (induction xs arbitrary: m)
  case Nil
  show ?case by simp
next
  case (Cons x xs)
  let ?m' = "if t - snd x > 30000 then AList.delete (fst x) m else m"
  have a: "fst ` set ?m' \<subseteq> fst ` set m"
    using dom_delete_subset[of "fst x" m] by (cases "t - snd x > 30000") simp_all
  have b: "fst ` set (foldl (\<lambda>m entry. if t - snd entry > 30000 then AList.delete (fst entry) m else m) ?m' xs)
     \<subseteq> fst ` set ?m'"
    by (rule Cons.IH)
  have c: "foldl (\<lambda>m entry. if t - snd entry > 30000 then AList.delete (fst entry) m else m) m (x # xs)
      = foldl (\<lambda>m entry. if t - snd entry > 30000 then AList.delete (fst entry) m else m) ?m' xs"
    by (simp only: foldl_Cons)
  show ?case unfolding c by (rule subset_trans[OF b a])
qed

lemma sweep_removes:
  "(k, ts) \<in> set xs \<Longrightarrow> t - ts > 30000 \<Longrightarrow>
   k \<notin> fst ` set (foldl (\<lambda>m entry. if t - snd entry > (30000::int) then AList.delete (fst entry) m else m) m xs)"
proof (induction xs arbitrary: m)
  case Nil
  then show ?case by simp
next
  case (Cons x xs)
  show ?case
  proof (cases "x = (k, ts)")
    case True
    have "k \<notin> fst ` set (AList.delete k m)" by (rule delete_notin_dom)
    with sweep_subset[of t "AList.delete k m" xs] True Cons.prems show ?thesis by auto
  next
    case False
    with Cons show ?thesis by simp
  qed
qed

lemma sweep_foldl_filter:
  "foldl (\<lambda>m entry. if t - snd entry > (30000::int) then AList.delete (fst entry) m else m) m xs
     = filter (\<lambda>p. fst p \<notin> fst ` {en \<in> set xs. t - snd en > 30000}) m"
proof (induction xs arbitrary: m)
  case Nil
  show ?case by simp
next
  case (Cons x xs)
  show ?case
  proof (cases "t - snd x > 30000")
    case True
    have "AList.delete (fst x) m = filter (\<lambda>p. fst p \<noteq> fst x) m"
      by (induction m) auto
    with True show ?thesis
      by (simp add: Cons.IH) (rule filter_cong, auto)
  next
    case False
    then show ?thesis by (simp add: Cons.IH) (rule filter_cong, auto)
  qed
qed

lemma sweep_keeps_young:
  assumes "distinct (map fst ops)" and "(k, ts) \<in> set ops" and "\<not> t - ts > 30000"
  shows "map_of (sweepOperations t ops) k = Some ts"
proof -
  let ?P = "\<lambda>p. fst p \<notin> fst ` {en \<in> set ops. t - snd en > 30000}"
  have eq: "sweepOperations t ops = filter ?P ops"
    by (simp add: sweepOperations_def sweep_foldl_filter)
  have "k \<notin> fst ` {en \<in> set ops. t - snd en > 30000}"
  proof
    assume "k \<in> fst ` {en \<in> set ops. t - snd en > 30000}"
    then obtain en where en: "en \<in> set ops" "t - snd en > 30000" "fst en = k" by auto
    then have "(k, snd en) \<in> set ops" by (metis prod.collapse)
    with assms(1,2) have "snd en = ts" by (meson eq_key_imp_eq_value)
    with en(2) assms(3) show False by simp
  qed
  with assms(2) have mem: "(k, ts) \<in> set (filter ?P ops)" by simp
  have "distinct (map fst (filter ?P ops))" using assms(1) by (rule distinct_map_filter)
  then have "map_of (filter ?P ops) k = Some ts" using mem by (rule map_of_is_SomeI)
  then show ?thesis by (simp only: eq)
qed

lemma set_map_entry:
  "set (AList.map_entry k f xs) \<subseteq> set xs \<union> {(k, f v) | v. map_of xs k = Some v}"
  by (induction xs) auto

lemma set_delete: "set (AList.delete k xs) \<subseteq> set xs"
  by (induction xs) auto

lemma regOk_delete: "regOk xs \<Longrightarrow> regOk (AList.delete k xs)"
  using set_delete[of k xs] by (auto simp add: regOk_def)

lemma regOk_map_entry:
  assumes "regOk xs"
    and "\<And>v. map_of xs k = Some v \<Longrightarrow>
           set (confirmedPlayers v) \<subseteq> set (currentPlayers v) \<Longrightarrow>
           set (confirmedPlayers (f v)) \<subseteq> set (currentPlayers (f v))"
  shows "regOk (AList.map_entry k f xs)"
proof -
  { fix p assume "p \<in> set (AList.map_entry k f xs)"
    then have "p \<in> set xs \<or> (\<exists>v. p = (k, f v) \<and> map_of xs k = Some v)"
      using set_map_entry[of k f xs] by auto
    then have "set (confirmedPlayers (snd p)) \<subseteq> set (currentPlayers (snd p))"
    proof
      assume "p \<in> set xs"
      with assms(1) show ?thesis by (simp add: regOk_def)
    next
      assume "\<exists>v. p = (k, f v) \<and> map_of xs k = Some v"
      then obtain v where v: "p = (k, f v)" "map_of xs k = Some v" by blast
      then have "(k, v) \<in> set xs" by (simp add: map_of_SomeD)
      with assms(1) have "set (confirmedPlayers v) \<subseteq> set (currentPlayers v)"
        by (force simp add: regOk_def)
      with assms(2)[OF v(2)] v(1) show ?thesis by simp
    qed }
  then show ?thesis by (simp add: regOk_def)
qed

lemma reg_modifySession [simp]:
  "activeSessions (modifySession k f st) = AList.map_entry k f (activeSessions st)"
  by (simp add: modifySession_def)

lemma reg_clearTimeout [simp]: "activeSessions (clearTimeout t st) = activeSessions st"
  by (simp add: clearTimeout_def)

lemma reg_setTimeout [simp]: "activeSessions (setTimeout cb d st) = activeSessions st"
  by (simp add: setTimeout_def)

lemma reg_deleteChannelDirect [simp]: "activeSessions (deleteChannelDirect e vc st) = activeSessions st"
  by (simp add: deleteChannelDirect_def Let_def split: option.splits)

lemma reg_revokeDirect [simp]: "activeSessions (revokeDirect vc us e st) = activeSessions st"
  by (simp add: revokeDirect_def split: option.splits)

lemma reg_manage [simp]: "activeSessions (snd (manageVoiceChannelAccess e vc u a st)) = activeSessions st"
  by (simp add: manageVoiceChannelAccess_def accessBody_def Let_def split: option.splits)

lemma regOk_keep:
  assumes "regOk xs"
    and "\<And>v. confirmedPlayers (f v) = confirmedPlayers v"
    and "\<And>v. currentPlayers (f v) = currentPlayers v"
  shows "regOk (AList.map_entry k f xs)"
  using assms(1) by (rule regOk_map_entry) (simp add: assms(2,3))

lemma regOk_filter:
  assumes "regOk xs"
  shows "regOk (AList.map_entry k
           (\<lambda>s. s\<lparr>currentPlayers := filter P (currentPlayers s),
                   confirmedPlayers := filter P (confirmedPlayers s)\<rparr>) xs)"
  using assms
proof (rule regOk_map_entry)
  fix v :: session
  assume "set (confirmedPlayers v) \<subseteq> set (currentPlayers v)"
  then have "set (filter P (confirmedPlayers v)) \<subseteq> set (filter P (currentPlayers v))" by auto
  then show "set (confirmedPlayers (v\<lparr>currentPlayers := filter P (currentPlayers v),
                   confirmedPlayers := filter P (confirmedPlayers v)\<rparr>))
       \<subseteq> set (currentPlayers (v\<lparr>currentPlayers := filter P (currentPlayers v),
                   confirmedPlayers := filter P (confirmedPlayers v)\<rparr>))" by simp
qed

lemma regOk_push_current:
  assumes "regOk xs"
  shows "regOk (AList.map_entry k (\<lambda>s. s\<lparr>currentPlayers := currentPlayers s @ [u]\<rparr>) xs)"
  using assms
proof (rule regOk_map_entry)
  fix v :: session
  assume "set (confirmedPlayers v) \<subseteq> set (currentPlayers v)"
  then have "set (confirmedPlayers v) \<subseteq> set (currentPlayers v @ [u])" by auto
  then show "set (confirmedPlayers (v\<lparr>currentPlayers := currentPlayers v @ [u]\<rparr>))
       \<subseteq> set (currentPlayers (v\<lparr>currentPlayers := currentPlayers v @ [u]\<rparr>))" by simp
qed

lemma regOk_push_confirmed:
  assumes "regOk xs" and "map_of xs k = Some s" and "u \<in> set (currentPlayers s)"
  shows "regOk (AList.map_entry k (\<lambda>s. s\<lparr>confirmedPlayers := confirmedPlayers s @ [u]\<rparr>) xs)"
  using assms(1)
proof (rule regOk_map_entry)
  fix v :: session
  assume "map_of xs k = Some v" and sub: "set (confirmedPlayers v) \<subseteq> set (currentPlayers v)"
  with assms(2) have "v = s" by simp
  with assms(3) sub have "set (confirmedPlayers v @ [u]) \<subseteq> set (currentPlayers v)" by auto
  then show "set (confirmedPlayers (v\<lparr>confirmedPlayers := confirmedPlayers v @ [u]\<rparr>))
       \<subseteq> set (currentPlayers (v\<lparr>confirmedPlayers := confirmedPlayers v @ [u]\<rparr>))" by simp
qed

lemma regOk_reset:
  assumes "regOk xs"
  shows "regOk (AList.map_entry k
           (\<lambda>s. s\<lparr>currentPlayers := ps s, confirmedPlayers := [], status := a,
                   confirmationStartTime := b\<rparr>) xs)"
  using assms by (rule regOk_map_entry) simp

lemma regOk_reopenLfg:
  "regOk (activeSessions st) \<Longrightarrow> regOk (activeSessions (reopenLfg e k st))"
  by (auto simp add: reopenLfg_def Let_def split: option.splits
      intro!: regOk_delete regOk_keep)

lemmas regOk_rules =
  regOk_reopenLfg regOk_delete regOk_filter regOk_push_current regOk_reset regOk_keep

lemma inv_handleConfirmationTimeout:
  "confirmedWithinCurrent st \<Longrightarrow> confirmedWithinCurrent (handleConfirmationTimeout e k st)"
  unfolding inv_regOk handleConfirmationTimeout_def Let_def
  by (auto split: option.splits intro!: regOk_rules)

lemma inv_handleJoinLfg:
  "confirmedWithinCurrent st \<Longrightarrow> confirmedWithinCurrent (handleJoinLfg e u k st)"
  unfolding inv_regOk handleJoinLfg_def Let_def
  by (auto split: option.splits intro!: regOk_rules)

lemma inv_handleConfirmation:
  assumes "confirmedWithinCurrent st"
  shows "confirmedWithinCurrent (handleConfirmation e u k st)"
proof (cases "map_of (activeSessions st) k")
  case None
  then show ?thesis using assms by (simp add: handleConfirmation_def)
next
  case (Some s)
  show ?thesis
  proof (cases "\<not> interactionFails e \<and> u \<in> set (currentPlayers s) \<and> status s = Confirming
                  \<and> u \<notin> set (confirmedPlayers s)")
    case False
    then show ?thesis using assms Some by (auto simp add: handleConfirmation_def)
  next
    case True
    have "regOk (activeSessions st)" using assms by (simp add: inv_regOk)
    then have p: "regOk (AList.map_entry k (\<lambda>s. s\<lparr>confirmedPlayers := confirmedPlayers s @ [u]\<rparr>)
                     (activeSessions st))"
      using Some True by (auto intro: regOk_push_confirmed)
    show ?thesis using True Some p
      unfolding inv_regOk handleConfirmation_def finalizeSession_def Let_def
      by (auto split: option.splits intro!: regOk_keep)
  qed
qed

lemma inv_handleDecline:
  "confirmedWithinCurrent st \<Longrightarrow> confirmedWithinCurrent (handleDecline e u k st)"
  unfolding inv_regOk handleDecline_def Let_def
  by (auto split: option.splits intro!: regOk_rules)

lemma inv_handleLeaveLfg:
  "confirmedWithinCurrent st \<Longrightarrow> confirmedWithinCurrent (handleLeaveLfg e u k st)"
  unfolding inv_regOk handleLeaveLfg_def Let_def
  by (auto split: option.splits intro!: regOk_rules)

lemma inv_removeMemberStep:
  "confirmedWithinCurrent st \<Longrightarrow> confirmedWithinCurrent (removeMemberStep e m st k)"
  unfolding inv_regOk removeMemberStep_def Let_def
  by (auto split: option.splits intro!: regOk_rules)

lemma inv_foldl_removeMemberStep:
  "confirmedWithinCurrent st \<Longrightarrow> confirmedWithinCurrent (foldl (removeMemberStep e m) st ks)"
  by (induction ks arbitrary: st) (simp_all add: inv_removeMemberStep)

lemma dedup_set [simp]: "set (dedup xs) = set xs"
  by (induction xs rule: dedup.induct) auto

lemma dedup_distinct [simp]: "distinct (dedup xs)"
  by (induction xs rule: dedup.induct) auto

subsection \<open>Invariant: confirmed players are current players\<close>

text \<open>
  C1. Evaluation at the failing input, with no fault anywhere. The row of the waiting
  session s1 of A and B has been marked inactive by the five-minute interval; C joins
  and fills the session and B confirms, so s1 has current players A, B, C and confirmed
  player B. B then runs \<open>/lfg\<close>: the membership check of \<open>handleLfgCommand\<close> finds no
  active row for s1 and splices B out of \<open>currentPlayers\<close> only, and B gets a session s2
  of its own. The listed transition "A confirms in s1" then commits with
  \<open>confirmedPlayers = [B, A]\<close> and \<open>currentPlayers = [A, C]\<close>, status active: B is
  confirmed and not current.
\<close>

theorem confirm_commits_outside_current:
  "map ds_isActive (lfgSessions (db stateExpiredRow)) = [False]
   \<and> map (\<lambda>p. (fst p, currentPlayers (snd p), confirmedPlayers (snd p), status (snd p)))
         (activeSessions stateBConfirmed)
       = [(''s1'', [''A'', ''B'', ''C''], [''B''], Confirming)]
   \<and> fst (handleLfgCommand envLate ''B'' 2 True stateBConfirmed) = None
   \<and> map (\<lambda>p. (fst p, currentPlayers (snd p), confirmedPlayers (snd p), status (snd p)))
         (activeSessions stateBLeftByCleanup)
       = [(''s1'', [''A'', ''C''], [''B''], Confirming), (''s2'', [''B''], [], Waiting)]
   \<and> map (\<lambda>p. (fst p, currentPlayers (snd p), confirmedPlayers (snd p), status (snd p)))
         (activeSessions (transition envLate (Confirm ''A'' ''s1'') stateBLeftByCleanup))
       = [(''s1'', [''A'', ''C''], [''B'', ''A''], Active), (''s2'', [''B''], [], Waiting)]
   \<and> ''B'' \<notin> set [''A'', ''C'']"
  by code_simp

text \<open>
  The six handlers themselves keep the subset: when every session of the registry has
  its confirmed players among its current players before a join, confirm, decline,
  leave, confirmation timeout or moderation removal, every session has so after it.
  They add a user to \<open>confirmedPlayers\<close> only after testing membership in
  \<open>currentPlayers\<close> and filter both lists together on every removal; the state above is
  reached through \<open>handleLfgCommand\<close>, which removes from one list alone.
\<close>

lemma listed_transitions_preserve_subset:
  "confirmedWithinCurrent st \<Longrightarrow> confirmedWithinCurrent (transition e ev st)"
proof (cases ev)
  case (Join u k)
  assume "confirmedWithinCurrent st"
  with Join show ?thesis by (simp add: inv_handleJoinLfg)
next
  case (Confirm u k)
  assume "confirmedWithinCurrent st"
  with Confirm show ?thesis by (simp add: inv_handleConfirmation)
next
  case (Decline u k)
  assume "confirmedWithinCurrent st"
  with Decline show ?thesis by (simp add: inv_handleDecline)
next
  case (Leave u k)
  assume "confirmedWithinCurrent st"
  with Leave show ?thesis by (simp add: inv_handleLeaveLfg)
next
  case (ConfirmationTimeout k)
  assume "confirmedWithinCurrent st"
  with ConfirmationTimeout show ?thesis by (simp add: inv_handleConfirmationTimeout)
next
  case (ModerationRemoval m)
  assume "confirmedWithinCurrent st"
  with ModerationRemoval show ?thesis
    by (simp add: removeMemberFromAllSessions_def inv_foldl_removeMemberStep)
qed

subsection \<open>Confirmation timeout\<close>

text \<open>
  C2. When \<open>handleConfirmationTimeout\<close> runs on a session that is in the registry with
  status confirming, the session stays in the registry and differs from the one before
  in exactly this: \<open>currentPlayers\<close> is the creator followed by the confirmed players
  with repetitions dropped (as a set, the creator together with the confirmed players,
  and free of duplicates), \<open>confirmedPlayers\<close> is empty, \<open>status\<close> is waiting,
  \<open>confirmationStartTime\<close> is null and \<open>timeoutId\<close> is null. The witness is the
  capacity-3 session in which only the creator A confirmed: it ends with
  \<open>currentPlayers = [A]\<close> and no confirmed player.
\<close>

theorem confirmation_timeout_effect:
  assumes "map_of (activeSessions st) k = Some s" and "status s = Confirming"
  shows "map_of (activeSessions (handleConfirmationTimeout e k st)) k
           = Some (s\<lparr>currentPlayers := dedup (creator s # confirmedPlayers s),
                     confirmedPlayers := [], confirmationStartTime := None,
                     status := Waiting, timeoutId := None\<rparr>)
         \<and> set (dedup (creator s # confirmedPlayers s)) = insert (creator s) (set (confirmedPlayers s))
         \<and> distinct (dedup (creator s # confirmedPlayers s))"
proof -
  let ?st3 = "modifySession k
                (\<lambda>s. s\<lparr>currentPlayers := dedup (creator s # confirmedPlayers s),
                        confirmedPlayers := [], status := Waiting, confirmationStartTime := None\<rparr>)
                (revokeDirect (voiceChannel s)
                   (filter (\<lambda>i. i \<notin> set (confirmedPlayers s)) (currentPlayers s)) e
                   (modifySession k (\<lambda>s. s\<lparr>timeoutId := None\<rparr>) st))"
  let ?s3 = "s\<lparr>currentPlayers := dedup (creator s # confirmedPlayers s),
                 confirmedPlayers := [], confirmationStartTime := None,
                 status := Waiting, timeoutId := None\<rparr>"
  have run: "handleConfirmationTimeout e k st = reopenLfg e k ?st3"
    using assms by (simp add: handleConfirmationTimeout_def Let_def del: dedup.simps)
  have look: "map_of (activeSessions ?st3) k = Some ?s3"
    using assms(1) by (simp add: map_of_map_entry del: dedup.simps)
  have "currentPlayers ?s3 \<noteq> []" by simp
  with look have "map_of (activeSessions (reopenLfg e k ?st3)) k = Some ?s3"
    by (simp add: reopenLfg_def map_of_map_entry del: dedup.simps)
  with run show ?thesis by (simp del: dedup.simps)
qed

theorem confirmation_timeout_effect_witness:
  "map_of (activeSessions stateABC) ''s1'' = Some sessionABC
   \<and> status sessionABC = Confirming
   \<and> map (\<lambda>p. (currentPlayers (snd p), confirmedPlayers (snd p), status (snd p),
                confirmationStartTime (snd p)))
         (activeSessions (handleConfirmationTimeout env0 ''s1'' stateABC))
       = [([''A''], [], Waiting, None)]
   \<and> map_of (activeSessions (handleConfirmationTimeout env0 ''s1'' stateABC)) ''s1''
       = Some (sessionABC\<lparr>currentPlayers := [''A''], confirmedPlayers := [],
                 confirmationStartTime := None, status := Waiting, timeoutId := None\<rparr>)"
proof -
  have h1: "map_of (activeSessions stateABC) ''s1'' = Some sessionABC" by code_simp
  have h2: "status sessionABC = Confirming" by code_simp
  have d: "dedup (creator sessionABC # confirmedPlayers sessionABC) = [''A'']" by code_simp
  have m: "map (\<lambda>p. (currentPlayers (snd p), confirmedPlayers (snd p), status (snd p),
                confirmationStartTime (snd p)))
         (activeSessions (handleConfirmationTimeout env0 ''s1'' stateABC))
       = [([''A''], [], Waiting, None)]" by code_simp
  show ?thesis
    using confirmation_timeout_effect [OF h1 h2, of env0] h1 h2 m by (simp add: d del: dedup.simps)
qed

subsection \<open>The last confirmation\<close>

text \<open>
  C3, as the code has it. When the last unconfirmed member of a confirming session
  confirms (both player lists free of duplicates, the confirmed players and the user
  together being exactly the current players), the user is appended to
  \<open>confirmedPlayers\<close>, the pending confirmation timer is cleared and \<open>timeoutId\<close> set to
  null, \<open>confirmationStartTime\<close> is null and \<open>status\<close> is active; the session stays in
  \<open>activeSessions\<close> under its key and \<open>userCreatedSessions\<close> is unchanged:
  \<open>finalizeSession\<close> removes nothing.
\<close>

theorem last_confirmation_activates:
  assumes "map_of (activeSessions st) k = Some s"
    and "status s = Confirming"
    and "\<not> interactionFails e"
    and "u \<notin> set (confirmedPlayers s)"
    and "distinct (currentPlayers s)"
    and "distinct (confirmedPlayers s)"
    and "insert u (set (confirmedPlayers s)) = set (currentPlayers s)"
  shows "map_of (activeSessions (handleConfirmation e u k st)) k
           = Some (s\<lparr>confirmedPlayers := confirmedPlayers s @ [u], confirmationStartTime := None,
                     status := Active, timeoutId := None\<rparr>)
         \<and> (case timeoutId s of None \<Rightarrow> True
             | Some t \<Rightarrow> map_of (timers (handleConfirmation e u k st)) t = None)
         \<and> map fst (activeSessions (handleConfirmation e u k st)) = map fst (activeSessions st)
         \<and> userCreatedSessions (handleConfirmation e u k st) = userCreatedSessions st"
proof -
  have mem: "u \<in> set (currentPlayers s)" using assms(7) by auto
  have "card (insert u (set (confirmedPlayers s))) = Suc (card (set (confirmedPlayers s)))"
    using assms(4) by simp
  then have len: "Suc (length (confirmedPlayers s)) = length (currentPlayers s)"
    using assms(5,6,7) by (simp add: distinct_card)
  have keys: "\<And>f xs. map fst (AList.map_entry k f xs) = map fst (xs :: (string \<times> session) list)"
  proof -
    fix f and xs :: "(string \<times> session) list"
    show "map fst (AList.map_entry k f xs) = map fst xs" by (induction xs) auto
  qed
  show ?thesis
  proof (cases "timeoutId s")
    case None
    then show ?thesis using assms(1-4) mem len
      by (simp add: handleConfirmation_def finalizeSession_def Let_def map_of_map_entry keys
            modifySession_def)
  next
    case (Some t)
    then show ?thesis using assms(1-4) mem len
      by (simp add: handleConfirmation_def finalizeSession_def Let_def map_of_map_entry keys
            modifySession_def clearTimeout_def delete_conv')
  qed
qed

theorem last_confirmation_activates_witness:
  "map_of (activeSessions stateLast) ''s1'' = Some (sessionABC\<lparr>confirmedPlayers := [''A'', ''B'']\<rparr>)
   \<and> status sessionABC = Confirming
   \<and> \<not> interactionFails env0
   \<and> ''C'' \<notin> set [''A'', ''B'']
   \<and> insert ''C'' (set [''A'', ''B'']) = set (currentPlayers sessionABC)
   \<and> map_of (activeSessions (handleConfirmation env0 ''C'' ''s1'' stateLast)) ''s1''
       = Some (sessionABC\<lparr>confirmedPlayers := [''A'', ''B'', ''C''], confirmationStartTime := None,
                 status := Active, timeoutId := None\<rparr>)
   \<and> map_of (timers (handleConfirmation env0 ''C'' ''s1'' stateLast)) 0 = None
   \<and> map fst (activeSessions (handleConfirmation env0 ''C'' ''s1'' stateLast)) = [''s1'']
   \<and> userCreatedSessions (handleConfirmation env0 ''C'' ''s1'' stateLast) = [(''A'', ''s1'')]"
proof -
  let ?s = "sessionABC\<lparr>confirmedPlayers := [''A'', ''B'']\<rparr>"
  have h1: "map_of (activeSessions stateLast) ''s1'' = Some ?s" by code_simp
  have h2: "status ?s = Confirming" by code_simp
  have h3: "\<not> interactionFails env0" by code_simp
  have h4: "''C'' \<notin> set (confirmedPlayers ?s)" by code_simp
  have h5: "distinct (currentPlayers ?s)" by code_simp
  have h6: "distinct (confirmedPlayers ?s)" by code_simp
  have h7: "insert ''C'' (set (confirmedPlayers ?s)) = set (currentPlayers ?s)"
    by (auto simp add: sessionABC_def)
  have t: "timeoutId ?s = Some 0" by code_simp
  have r: "map fst (activeSessions stateLast) = [''s1'']" by code_simp
  have c: "userCreatedSessions stateLast = [(''A'', ''s1'')]" by code_simp
  show ?thesis
    using last_confirmation_activates [OF h1 h2 h3 h4 h5 h6 h7] h1 h2 h3 h4 h7
    by (simp add: t r c)
qed

text \<open>
  The claim as first stated says that the session leaves active tracking. In the state
  where A and B have confirmed and C confirms last, the session is active afterwards
  and is still in the registry, and the creator index still points at it.
\<close>

theorem final_confirmation_keeps_session:
  "map (\<lambda>p. status (snd p)) (activeSessions stateLast) = [Confirming]
   \<and> map (\<lambda>p. (confirmedPlayers (snd p), status (snd p)))
         (activeSessions (handleConfirmation env0 ''C'' ''s1'' stateLast))
       = [([''A'', ''B'', ''C''], Active)]
   \<and> has ''s1'' (activeSessions (handleConfirmation env0 ''C'' ''s1'' stateLast))
   \<and> userCreatedSessions (handleConfirmation env0 ''C'' ''s1'' stateLast) = [(''A'', ''s1'')]"
  by code_simp

subsection \<open>Durable-store writes after a mutation\<close>

text \<open>
  C4. Evaluation at the failing input: on the confirming session of A, B and C, a
  confirmation by B, a decline by B, a leave by B and the confirmation timeout each
  change the player lists in memory and leave the database exactly as it was (the row
  still lists A, B, C as current and nobody as confirmed). Only \<open>handleJoinLfg\<close> calls
  \<open>storage.updateSession\<close> with the player list.
\<close>

theorem mutations_without_store_write:
  "map (\<lambda>p. confirmedPlayers (snd p)) (activeSessions (handleConfirmation env0 ''B'' ''s1'' stateABC))
       = [[''A'', ''B'']]
   \<and> db (handleConfirmation env0 ''B'' ''s1'' stateABC) = db stateABC
   \<and> map (\<lambda>p. currentPlayers (snd p)) (activeSessions (handleDecline env0 ''B'' ''s1'' stateABC))
       = [[''A'', ''C'']]
   \<and> db (handleDecline env0 ''B'' ''s1'' stateABC) = db stateABC
   \<and> map (\<lambda>p. currentPlayers (snd p)) (activeSessions (handleLeaveLfg env0 ''B'' ''s1'' stateABC))
       = [[''A'', ''C'']]
   \<and> db (handleLeaveLfg env0 ''B'' ''s1'' stateABC) = db stateABC
   \<and> map (\<lambda>p. currentPlayers (snd p)) (activeSessions (handleConfirmationTimeout env0 ''s1'' stateABC))
       = [[''A'']]
   \<and> db (handleConfirmationTimeout env0 ''s1'' stateABC) = db stateABC
   \<and> map ds_currentPlayers (lfgSessions (db stateABC)) = [[''A'', ''B'', ''C'']]
   \<and> map ds_confirmedPlayers (lfgSessions (db stateABC)) = [[]]"
  by code_simp

text \<open>
  The part of the requirement that the join path meets: with every storage query
  throwing, C joining the waiting session of A and B is still appended in memory (and
  the confirmation phase starts) while the database stays as it was.
\<close>

lemma join_survives_failed_write:
  "map (\<lambda>p. (currentPlayers (snd p), status (snd p)))
       (activeSessions (handleJoinLfg envDown ''C'' ''s1'' stateWaiting))
     = [([''A'', ''B'', ''C''], Confirming)]
   \<and> db (handleJoinLfg envDown ''C'' ''s1'' stateWaiting) = db stateWaiting
   \<and> map ds_currentPlayers (lfgSessions (db (handleJoinLfg env0 ''C'' ''s1'' stateWaiting)))
       = [[''A'', ''B'', ''C'']]"
  by code_simp

subsection \<open>The recruitment timer\<close>

text \<open>
  C5. Evaluation at the failing input: after a restart the waiting session of A and B
  (two members) is restored with a timer whose callback is the unguarded one; when
  that timer fires the session is removed from the registry although it has two
  members. The guarded callback that \<open>handleLfgCommand\<close> schedules leaves the same
  registry untouched.
\<close>

theorem restored_timer_expires_joined_session:
  "map (\<lambda>p. (currentPlayers (snd p), status (snd p), timeoutId (snd p)))
       (activeSessions (loadSessionData env0 stateRestart))
     = [([''A'', ''B''], Waiting, Some 1)]
   \<and> map_of (timers (loadSessionData env0 stateRestart)) 1
       = Some \<lparr>t_callback = RestoredTimer ''s1'', t_delay = 200000\<rparr>
   \<and> activeSessions (fireTimer (env0\<lparr>now := 1200000\<rparr>) 1 (loadSessionData env0 stateRestart)) = []
   \<and> recruitmentTimerFires (env0\<lparr>now := 1200000\<rparr>) ''s1'' (loadSessionData env0 stateRestart)
       = loadSessionData env0 stateRestart"
  by code_simp

subsection \<open>The confirmation window\<close>

text \<open>
  C6. Evaluation at the failing input: when C fills the session at clock 1000000 the
  confirmation timer is scheduled with a delay of 300000 ms, and the sweep run at
  clock 1120000 (120000 ms later) already performs the confirmation timeout: the
  session is waiting again with only the creator left. The two thresholds are 300000
  and 120000.
\<close>

theorem sweep_fires_before_timer:
  "map (\<lambda>p. (status (snd p), confirmationStartTime (snd p)))
       (activeSessions (handleJoinLfg env0 ''C'' ''s1'' stateWaiting))
     = [(Confirming, Some 1000000)]
   \<and> map snd (timers (handleJoinLfg env0 ''C'' ''s1'' stateWaiting))
       = [\<lparr>t_callback = ConfirmationTimer ''s1'', t_delay = 300000\<rparr>]
   \<and> map (\<lambda>p. (status (snd p), currentPlayers (snd p)))
         (activeSessions (checkExpiredConfirmations (env0\<lparr>now := 1000000 + 120000\<rparr>)
            (handleJoinLfg env0 ''C'' ''s1'' stateWaiting)))
       = [(Waiting, [''A''])]"
  by code_simp

subsection \<open>Rollback of a failed creation\<close>

text \<open>
  C7. Evaluation at two failing inputs of \<open>handleLfgCommand\<close> for user D on an empty
  process. When the session row is inserted and the user-session insert then throws,
  the voice channel is deleted but the row \<open>s2\<close> stays active in the database. When
  the reply that publishes the announcement rejects, the handler ends with a
  ReferenceError, the voice channel \<open>vc2\<close> still exists and no deletion of it was
  attempted.
\<close>

theorem create_rollback_leaks:
  "map (\<lambda>r. (ds_id r, ds_voiceChannelId r, ds_isActive r))
       (lfgSessions (db (snd (handleLfgCommand (env0\<lparr>dbFails := (\<lambda>q. q = QCreateUserSession)\<rparr>)
                                 ''D'' 2 True stateEmpty))))
     = [(''s2'', Some ''vc2'', True)]
   \<and> guildChannels (snd (handleLfgCommand (env0\<lparr>dbFails := (\<lambda>q. q = QCreateUserSession)\<rparr>)
                                 ''D'' 2 True stateEmpty)) = []
   \<and> fst (handleLfgCommand (env0\<lparr>editReplyFails := True\<rparr>) ''D'' 2 True stateEmpty)
       = Some ReferenceError
   \<and> guildChannels (snd (handleLfgCommand (env0\<lparr>editReplyFails := True\<rparr>) ''D'' 2 True stateEmpty))
       = [''vc2'']
   \<and> calls (snd (handleLfgCommand (env0\<lparr>editReplyFails := True\<rparr>) ''D'' 2 True stateEmpty)) = []"
  by code_simp

subsection \<open>The resource operation guard\<close>

text \<open>
  C8. Evaluation at the failing input: a state in which the keys \<open>delete_vc1\<close> and
  \<open>permission_vc1_B\<close> are registered, as they are while a guarded deletion of vc1 and a
  guarded access change for B are in flight. The two guarded wrappers refuse and make
  no call. The handlers that delete a channel or revoke access directly read no key:
  a decline by the creator, \<open>expireSession\<close> and the moderation removal of the creator
  delete vc1, and a decline by B, the moderation removal of B and the confirmation
  timeout revoke B's access, all while the key is registered.
\<close>

theorem unguarded_calls_ignore_registered_key:
  "has ''delete_vc1'' (voiceChannelOperations stateBusy)
   \<and> has ''permission_vc1_B'' (voiceChannelOperations stateBusy)
   \<and> safeDeleteVoiceChannel env0 (Some ''vc1'') stateBusy = (False, stateBusy)
   \<and> manageVoiceChannelAccess env0 (Some ''vc1'') ''B'' ''revoke'' stateBusy = (False, stateBusy)
   \<and> calls stateBusy = []
   \<and> calls (handleDecline env0 ''A'' ''s1'' stateBusy) = [ChannelDelete ''vc1'']
   \<and> calls (expireSession env0 ''s1'' stateBusy) = [ChannelDelete ''vc1'']
   \<and> calls (removeMemberFromAllSessions env0 ''A'' stateBusy)
       = [PermissionDelete ''vc1'' ''A'', ChannelDelete ''vc1'']
   \<and> calls (handleDecline env0 ''B'' ''s1'' stateBusy) = [PermissionDelete ''vc1'' ''B'']
   \<and> calls (removeMemberFromAllSessions env0 ''B'' stateBusy) = [PermissionDelete ''vc1'' ''B'']
   \<and> calls (handleConfirmationTimeout env0 ''s1'' stateBusy)
       = [PermissionDelete ''vc1'' ''B'', PermissionDelete ''vc1'' ''C'']"
  by code_simp

text \<open>
  What the two wrappers and the sweep do on their own: with the key registered the
  call returns false and leaves the whole state as it was; with the key free, the
  table of registered keys after the call equals the table before it in every
  environment, so the key is released whether the operation succeeds or fails; the
  sweep at time \<open>t\<close> drops every entry older than 30000 ms and keeps every other one.
\<close>

lemma guarded_wrappers_block_and_release:
  "(has (''delete_'' @ c) (voiceChannelOperations st) \<longrightarrow>
      safeDeleteVoiceChannel e (Some c) st = (False, st))
   \<and> (has (''permission_'' @ c @ ''_'' @ u) (voiceChannelOperations st) \<longrightarrow>
      manageVoiceChannelAccess e (Some c) u a st = (False, st))
   \<and> (\<not> has (''delete_'' @ c) (voiceChannelOperations st') \<longrightarrow>
      voiceChannelOperations (snd (safeDeleteVoiceChannel e (Some c) st')) = voiceChannelOperations st')
   \<and> (\<not> has (''permission_'' @ c @ ''_'' @ u) (voiceChannelOperations st') \<longrightarrow>
      voiceChannelOperations (snd (manageVoiceChannelAccess e (Some c) u a st')) = voiceChannelOperations st')
   \<and> ((k, ts) \<in> set ops \<and> t - ts > 30000 \<longrightarrow> \<not> has k (sweepOperations t ops))
   \<and> (distinct (map fst ops) \<and> (k, ts) \<in> set ops \<and> \<not> t - ts > 30000 \<longrightarrow>
        map_of (sweepOperations t ops) k = Some ts)"
proof (intro conjI impI)
  assume "has (''delete_'' @ c) (voiceChannelOperations st)"
  then show "safeDeleteVoiceChannel e (Some c) st = (False, st)"
    by (simp add: safeDeleteVoiceChannel_def)
next
  assume "has (''permission_'' @ c @ ''_'' @ u) (voiceChannelOperations st)"
  then show "manageVoiceChannelAccess e (Some c) u a st = (False, st)"
    by (simp add: manageVoiceChannelAccess_def)
next
  assume "\<not> has (''delete_'' @ c) (voiceChannelOperations st')"
  then show "voiceChannelOperations (snd (safeDeleteVoiceChannel e (Some c) st')) = voiceChannelOperations st'"
    by (simp add: safeDeleteVoiceChannel_def Let_def deleteChannelBody_ops delete_update_fresh)
next
  assume "\<not> has (''permission_'' @ c @ ''_'' @ u) (voiceChannelOperations st')"
  then show "voiceChannelOperations (snd (manageVoiceChannelAccess e (Some c) u a st')) = voiceChannelOperations st'"
    by (simp add: manageVoiceChannelAccess_def Let_def accessBody_ops delete_update_fresh)
next
  assume "(k, ts) \<in> set ops \<and> t - ts > 30000"
  then show "\<not> has k (sweepOperations t ops)"
    using sweep_removes[of k ts ops t ops]
    by (simp add: has_def sweepOperations_def map_of_eq_None_iff)
next
  assume "distinct (map fst ops) \<and> (k, ts) \<in> set ops \<and> \<not> t - ts > 30000"
  then show "map_of (sweepOperations t ops) k = Some ts"
    by (simp add: sweep_keeps_young)
qed

subsection \<open>Error policy of the storage wrapper\<close>

text \<open>
  C9. When its database query throws, each of \<open>getSession\<close>, \<open>updateSession\<close>,
  \<open>deleteSession\<close>, \<open>getAllActiveSessions\<close>, \<open>getGuildSettings\<close>, \<open>setGuildSettings\<close>,
  \<open>cleanupExpiredSessions\<close>, \<open>getUserSession\<close> and \<open>deleteUserSession\<close> resolves to its
  fallback (undefined, false, the empty list or 0) and leaves the database unchanged,
  while \<open>createSession\<close> and \<open>createUserSession\<close> reject with the database error; and
  none of the nine ever rejects, whatever the environment.
\<close>

theorem storage_error_policy:
  "(dbFails e QGetSession \<longrightarrow> getSession e sid d = (Inr None, d))
   \<and> (dbFails e QUpdateSession \<longrightarrow> updateSession e sid u d = (Inr None, d))
   \<and> (dbFails e QDeleteSession \<longrightarrow> deleteSession e sid d = (Inr False, d))
   \<and> (dbFails e QGetAllActiveSessions \<longrightarrow> getAllActiveSessions e d = (Inr [], d))
   \<and> (dbFails e QGetGuildSettings \<longrightarrow> getGuildSettings e g d = (Inr None, d))
   \<and> (dbFails e QSetGuildSettings \<longrightarrow> setGuildSettings e g c d = (Inr None, d))
   \<and> (dbFails e QCleanupExpiredSessions \<longrightarrow> cleanupExpiredSessions e d = (Inr 0, d))
   \<and> (dbFails e QGetUserSession \<longrightarrow> getUserSession e uid d = (Inr None, d))
   \<and> (dbFails e QDeleteUserSession \<longrightarrow> deleteUserSession e uid d = (Inr False, d))
   \<and> (dbFails e QCreateSession \<longrightarrow> createSession e s d = (Inl DatabaseError, d))
   \<and> (dbFails e QCreateUserSession \<longrightarrow> fst (createUserSession e us d) = Inl DatabaseError)
   \<and> \<not> isl (fst (getSession e sid d))
   \<and> \<not> isl (fst (updateSession e sid u d))
   \<and> \<not> isl (fst (deleteSession e sid d))
   \<and> \<not> isl (fst (getAllActiveSessions e d))
   \<and> \<not> isl (fst (getGuildSettings e g d))
   \<and> \<not> isl (fst (setGuildSettings e g c d))
   \<and> \<not> isl (fst (cleanupExpiredSessions e d))
   \<and> \<not> isl (fst (getUserSession e uid d))
   \<and> \<not> isl (fst (deleteUserSession e uid d))"
  by (simp add: getSession_def updateSession_def deleteSession_def getAllActiveSessions_def
        getGuildSettings_def setGuildSettings_def cleanupExpiredSessions_def getUserSession_def
        deleteUserSession_def createSession_def createUserSession_def Let_def)

theorem storage_error_policy_witness:
  "dbFails envDown QGetSession \<and> dbFails envDown QUpdateSession \<and> dbFails envDown QDeleteSession
   \<and> dbFails envDown QGetAllActiveSessions \<and> dbFails envDown QGetGuildSettings
   \<and> dbFails envDown QSetGuildSettings \<and> dbFails envDown QCleanupExpiredSessions
   \<and> dbFails envDown QGetUserSession \<and> dbFails envDown QDeleteUserSession
   \<and> dbFails envDown QCreateSession \<and> dbFails envDown QCreateUserSession
   \<and> getSession envDown ''s1'' (db stateABC) = (Inr None, db stateABC)
   \<and> updateSession envDown ''s1''
         \<lparr>u_currentPlayers = Some [''A''], u_status = None, u_confirmationStartTime = None,
          u_voiceChannelId = None\<rparr> (db stateABC) = (Inr None, db stateABC)
   \<and> deleteSession envDown ''s1'' (db stateABC) = (Inr False, db stateABC)
   \<and> getAllActiveSessions envDown (db stateABC) = (Inr [], db stateABC)
   \<and> getGuildSettings envDown ''g1'' (db stateABC) = (Inr None, db stateABC)
   \<and> setGuildSettings envDown ''g1'' (Some ''ch1'') (db stateABC) = (Inr None, db stateABC)
   \<and> cleanupExpiredSessions envDown (db stateABC) = (Inr 0, db stateABC)
   \<and> getUserSession envDown ''A'' (db stateABC) = (Inr None, db stateABC)
   \<and> deleteUserSession envDown ''A'' (db stateABC) = (Inr False, db stateABC)
   \<and> createSession envDown rowABC (db stateEmpty) = (Inl DatabaseError, db stateEmpty)
   \<and> fst (createUserSession envDown (''D'', ''s2'') (db stateABC)) = Inl DatabaseError"
proof -
  have f: "\<And>q. dbFails envDown q" by (simp add: envDown_def)
  show ?thesis
    using storage_error_policy [of envDown "''s1''" "db stateABC"
        "\<lparr>u_currentPlayers = Some [''A''], u_status = None, u_confirmationStartTime = None,
          u_voiceChannelId = None\<rparr>" "''g1''" "Some ''ch1''" "''A''" rowABC "(''D'', ''s2'')"]
      storage_error_policy [of envDown "''s1''" "db stateEmpty"
        "\<lparr>u_currentPlayers = Some [''A''], u_status = None, u_confirmationStartTime = None,
          u_voiceChannelId = None\<rparr>" "''g1''" "Some ''ch1''" "''A''" rowABC "(''D'', ''s2'')"]
    by (simp add: f)
qed

subsection \<open>Deleting a channel that is already gone\<close>

text \<open>
  C10. A call of \<open>safeDeleteVoiceChannel\<close> that reaches the re-fetch (the channel
  object has an id and no deletion of that channel is registered as in flight) and
  whose re-fetch finds nothing returns true and leaves the state as it was.
\<close>

theorem delete_of_missing_channel_succeeds:
  assumes "c \<noteq> []"
    and "\<not> has (''delete_'' @ c) (voiceChannelOperations st)"
    and "\<not> fetchFinds e"
  shows "safeDeleteVoiceChannel e (Some c) st = (True, st)"
  using assms
  by (simp add: safeDeleteVoiceChannel_def deleteChannelBody_def Let_def delete_update_fresh)

theorem delete_of_missing_channel_succeeds_witness:
  "''vc1'' \<noteq> [] \<and> \<not> has (''delete_'' @ ''vc1'') (voiceChannelOperations stateABC)
   \<and> \<not> fetchFinds (env0\<lparr>fetchFinds := False\<rparr>)
   \<and> safeDeleteVoiceChannel (env0\<lparr>fetchFinds := False\<rparr>) (Some ''vc1'') stateABC = (True, stateABC)"
proof -
  have h1: "''vc1'' \<noteq> []" by simp
  have h2: "\<not> has (''delete_'' @ ''vc1'') (voiceChannelOperations stateABC)" by code_simp
  have h3: "\<not> fetchFinds (env0\<lparr>fetchFinds := False\<rparr>)" by simp
  show ?thesis
    using delete_of_missing_channel_succeeds [OF h1 h2 h3] h1 h2 h3 by simp
qed

end
